theory Spec2Isabelle
  imports Main "HOL-Library.List_Lexorder"
begin

section \<open>Runes, errors and the rewindable cursor\<close>

text \<open>
  The package reads its input through Go's \<^verbatim>\<open>bytes.Reader\<close>, one rune at a time.
  A rune is a Unicode code point; the model keeps the input as the sequence of runes that
  \<^verbatim>\<open>ReadRune\<close> yields, and the cursor as an index into that sequence. For ASCII
  text a rune is a byte, and offsets and lengths are the ones of the Go program; for other
  text the cursor counts runes where Go counts bytes.
\<close>

type_synonym rune = nat

definition rn :: "char \<Rightarrow> rune" where
  "rn c = of_char c"

definition runes :: "string \<Rightarrow> rune list" where
  "runes cs = map rn cs"

text \<open>
  The error values that can reach a caller. \<open>ErrPattern\<close> and \<open>ErrSyntax\<close> are the
  package's own; \<open>EOF\<close> is \<^verbatim>\<open>io.EOF\<close>; \<open>ErrUnreadRune\<close> and \<open>ErrSeek\<close> are the
  errors of \<^verbatim>\<open>bytes.Reader\<close>; \<open>ErrNumSyntax\<close> and \<open>ErrNumRange\<close> are the two
  \<^verbatim>\<open>strconv.NumError\<close>s; \<open>ErrEscape\<close> is the error built at line 393, which wraps
  nothing; \<open>ErrIO\<close> stands for a failure of the underlying stream.
\<close>

datatype error =
  ErrPattern | ErrSyntax | EOF | ErrUnreadRune | ErrSeek
  | ErrNumSyntax | ErrNumRange | ErrEscape | ErrIO

record reader =
  src :: "rune list"
  pos :: nat
  prevRune :: "nat option"

definition bytes_NewReader :: "rune list \<Rightarrow> reader" where
  "bytes_NewReader b = \<lparr>src = b, pos = 0, prevRune = None\<rparr>"

definition Len :: "reader \<Rightarrow> nat" where
  "Len r = (if pos r \<ge> length (src r) then 0 else length (src r) - pos r)"

text \<open>At the end of the input \<^verbatim>\<open>ReadRune\<close> returns rune 0 with \<^verbatim>\<open>io.EOF\<close> and
  forgets the previous rune.\<close>

definition ReadRune :: "reader \<Rightarrow> rune \<times> error option \<times> reader" where
  "ReadRune r =
     (if pos r \<ge> length (src r) then (0, Some EOF, r\<lparr>prevRune := None\<rparr>)
      else (src r ! pos r, None, r\<lparr>pos := pos r + 1, prevRune := Some (pos r)\<rparr>))"

text \<open>\<^verbatim>\<open>UnreadRune\<close> fails, changing nothing, unless the previous operation was a
  successful \<^verbatim>\<open>ReadRune\<close>.\<close>

definition UnreadRune :: "reader \<Rightarrow> error option \<times> reader" where
  "UnreadRune r =
     (if pos r \<le> 0 then (Some ErrUnreadRune, r)
      else case prevRune r of
             None \<Rightarrow> (Some ErrUnreadRune, r)
           | Some p \<Rightarrow> (None, r\<lparr>pos := p, prevRune := None\<rparr>))"

datatype whence = SeekStart | SeekCurrent | SeekEnd

definition Seek :: "reader \<Rightarrow> int \<Rightarrow> whence \<Rightarrow> int \<times> error option \<times> reader" where
  "Seek r0 offset wh =
     (let r = r0\<lparr>prevRune := None\<rparr>;
          abs = (case wh of
                   SeekStart \<Rightarrow> offset
                 | SeekCurrent \<Rightarrow> int (pos r) + offset
                 | SeekEnd \<Rightarrow> int (length (src r)) + offset)
      in if abs < 0 then (0, Some ErrSeek, r)
         else (abs, None, r\<lparr>pos := nat abs\<rparr>))"

definition peek :: "reader \<Rightarrow> rune \<times> reader" where
  "peek r =
     (let (c, _, r1) = ReadRune r;
          (_, r2) = UnreadRune r1
      in (c, r2))"

subsection \<open>Character classes\<close>

definition isDigit :: "rune \<Rightarrow> bool" where
  "isDigit r = (r \<ge> rn CHR ''0'' \<and> r \<le> rn CHR ''9'')"

definition isHexa :: "rune \<Rightarrow> bool" where
  "isHexa r = (isDigit r \<or> (r \<ge> rn CHR ''a'' \<and> r \<le> rn CHR ''f'')
                \<or> (r \<ge> rn CHR ''A'' \<and> r \<le> rn CHR ''F''))"

definition isLetter :: "rune \<Rightarrow> bool" where
  "isLetter r = ((r \<ge> rn CHR ''a'' \<and> r \<le> rn CHR ''z'')
                  \<or> (r \<ge> rn CHR ''A'' \<and> r \<le> rn CHR ''Z''))"

definition isAlpha :: "rune \<Rightarrow> bool" where
  "isAlpha r = (isDigit r \<or> isLetter r \<or> r = rn CHR ''-'' \<or> r = rn CHR ''_'')"

definition isBlank :: "rune \<Rightarrow> bool" where
  "isBlank r = (r = rn CHR '' '' \<or> r = 9)"

definition isEOL :: "rune \<Rightarrow> bool" where
  "isEOL r = (r = 0)"

definition isQuote :: "rune \<Rightarrow> bool" where
  "isQuote r = (r = 39 \<or> r = rn CHR ''\"'')"

subsection \<open>Integer scanner\<close>

text \<open>
  \<^verbatim>\<open>strings.TrimLeft(s, "0")\<close>, and \<^verbatim>\<open>strconv.ParseInt(part, 0, 64)\<close> on the
  strings that reach it: \<open>parseInt\<close> is only called with \<open>isDigit\<close> or \<open>isHexa\<close>, so
  \<open>part\<close> holds hexadecimal digits and does not start with \<open>0\<close>; with base 0 such a
  string has no base prefix and is read in base 10, a letter is a syntax error, and a
  value of \<open>2 ^ 63\<close> or more is a range error.
\<close>

definition TrimLeft0 :: "rune list \<Rightarrow> rune list" where
  "TrimLeft0 str = dropWhile (\<lambda>c. c = rn CHR ''0'') str"

definition decimal :: "rune list \<Rightarrow> int" where
  "decimal str = foldl (\<lambda>a c. 10 * a + (int c - int (rn CHR ''0''))) 0 str"

definition ParseInt :: "rune list \<Rightarrow> error + int" where
  "ParseInt part =
     (if part = [] \<or> \<not> list_all isDigit part then Inl ErrNumSyntax
      else if decimal part < 2 ^ 63 then Inr (decimal part)
      else Inl ErrNumRange)"

text \<open>
  The loop of \<open>parseInt\<close> (lines 1193 to 1206). \<open>Inl\<close> is a \<^verbatim>\<open>return\<close> from inside
  the loop, \<open>Inr\<close> the buffer when the loop is left by its condition or by \<^verbatim>\<open>break\<close>.
\<close>

function parseIntLoop ::
  "int \<Rightarrow> int \<Rightarrow> (rune \<Rightarrow> bool) \<Rightarrow> rune list \<Rightarrow> reader \<Rightarrow> (error + rune list) \<times> reader" where
  "parseIntLoop n k accept buf str =
     (if n \<le> 0 \<or> k < n then
        (case ReadRune str of
           (r, Some err, str1) \<Rightarrow> (Inl err, str1)
         | (r, None, str1) \<Rightarrow>
             if \<not> accept r then
               (if n = 0 then (Inr buf, snd (UnreadRune str1))
                else (Inl ErrPattern, str1))
             else parseIntLoop n (k + 1) accept (buf @ [r]) str1)
      else (Inr buf, str))"
  by pat_completeness auto
termination
  by (relation "measure (\<lambda>(n, k, accept, buf, str). length (src str) - pos str)")
     (auto simp: ReadRune_def split: if_splits)

text \<open>\<open>parseInt\<close> writes through the pointer \<open>i\<close>; the model takes the value \<open>v\<close> the
  target holds and returns the value it holds afterwards.\<close>

definition parseInt ::
  "int \<Rightarrow> int \<Rightarrow> reader \<Rightarrow> (rune \<Rightarrow> bool) \<Rightarrow> error option \<times> int \<times> reader" where
  "parseInt v n str accept =
     (case parseIntLoop n 0 accept [] str of
        (Inl err, str1) \<Rightarrow> (Some err, v, str1)
      | (Inr buf, str1) \<Rightarrow>
          (let part = TrimLeft0 buf
           in if part = [] then (None, v, str1)
              else case ParseInt part of
                     Inr x \<Rightarrow> (None, x, str1)
                   | Inl err \<Rightarrow> (Some err, v, str1)))"

subsection \<open>String scanner\<close>

text \<open>
  The loop of \<open>parseString\<close> (lines 1224 to 1230). It ignores the error of
  \<^verbatim>\<open>ReadRune\<close>: at the end of the input it sees rune 0 again and again. With no
  length bound and an \<open>accept\<close> that takes rune 0 the loop is never left, which is the
  result \<open>None\<close>.
\<close>

function parseStringLoop ::
  "int \<Rightarrow> int \<Rightarrow> (rune \<Rightarrow> bool) \<Rightarrow> rune list \<Rightarrow> reader \<Rightarrow> (rune list \<times> reader) option" where
  "parseStringLoop len k accept buf r =
     (if len \<le> 0 \<or> k < len then
        (case ReadRune r of
           (c, err, r1) \<Rightarrow>
             if \<not> accept c then Some (buf, r1)
             else if err \<noteq> None \<and> len \<le> 0 then None
             else parseStringLoop len (k + 1) accept (buf @ [c]) r1)
      else Some (buf, r))"
  by pat_completeness auto
termination
  by (relation "measures [\<lambda>(len, k, accept, buf, r). length (src r) - pos r,
                          \<lambda>(len, k, accept, buf, r). nat (len - k)]")
     (auto simp: ReadRune_def split: if_splits)

text \<open>The deferred \<^verbatim>\<open>UnreadRune\<close> runs on every return, also after a rune that was
  accepted.\<close>

definition parseString ::
  "reader \<Rightarrow> int \<Rightarrow> (rune \<Rightarrow> bool) \<Rightarrow> (rune list \<times> error option \<times> reader) option" where
  "parseString r len accept =
     (case parseStringLoop len 0 accept [] r of
        None \<Rightarrow> None
      | Some (buf, r1) \<Rightarrow>
          (let r2 = snd (UnreadRune r1)
           in if len > 0 \<and> int (length buf) \<noteq> len then Some ([], Some ErrPattern, r2)
              else Some (buf, None, r2)))"

subsection \<open>Compiled steps\<close>

text \<open>
  A compiled step (\<^verbatim>\<open>parsefunc\<close>, \<^verbatim>\<open>whenfunc\<close>, \<^verbatim>\<open>hostfunc\<close>) mutates the value
  it is given through a pointer and moves the cursor; it returns an error or
  \<^verbatim>\<open>nil\<close>. The model returns the error, the value and the cursor as they are
  when the step returns, and \<open>None\<close> when the step does not return.
\<close>

type_synonym 'a step = "'a \<Rightarrow> reader \<Rightarrow> (error option \<times> 'a \<times> reader) option"

text \<open>The loops of \<^verbatim>\<open>mergeParse\<close>, \<^verbatim>\<open>mergeWhen\<close> and \<^verbatim>\<open>mergeHost\<close>.\<close>

fun mergeSteps :: "'a step list \<Rightarrow> 'a step" where
  "mergeSteps [] x r = Some (None, x, r)"
| "mergeSteps (f # fs) x r =
     (case f x r of
        None \<Rightarrow> None
      | Some (Some err, x1, r1) \<Rightarrow> Some (Some err, x1, r1)
      | Some (None, x1, r1) \<Rightarrow> mergeSteps fs x1 r1)"

text \<open>The loop shared by \<^verbatim>\<open>parseLiteral\<close>, \<^verbatim>\<open>parseWhenLiteral\<close> and
  \<^verbatim>\<open>parseHostLiteral\<close>.\<close>

fun literalLoop :: "rune list \<Rightarrow> reader \<Rightarrow> error option \<times> reader" where
  "literalLoop [] r = (None, r)"
| "literalLoop (w # pat) r =
     (case ReadRune r of
        (g, _, r1) \<Rightarrow> if w \<noteq> g then (Some ErrPattern, r1) else literalLoop pat r1)"

definition matchLiteral :: "rune list \<Rightarrow> 'a step" where
  "matchLiteral str x r = (case literalLoop str r of (err, r1) \<Rightarrow> Some (err, x, r1))"

section \<open>Instants: the part of Go's time package the program uses\<close>

text \<open>
  A \<^verbatim>\<open>time.Time\<close> is an instant (seconds and nanoseconds since the Unix epoch)
  with a location. The program builds times in \<^verbatim>\<open>time.UTC\<close> or in a
  \<^verbatim>\<open>time.FixedZone\<close>, and \<^verbatim>\<open>time.Unix\<close> returns one in \<^verbatim>\<open>time.Local\<close>. The
  calendar functions below are only applied to the first two; the offset of
  \<open>Local\<close> belongs to the machine and is taken as 0 here.
\<close>

datatype location = UTC | Local | FixedZone int

record gotime =
  unixSec :: int
  nanos :: int
  loc :: location

definition zoneOffset :: "location \<Rightarrow> int" where
  "zoneOffset l = (case l of UTC \<Rightarrow> 0 | Local \<Rightarrow> 0 | FixedZone n \<Rightarrow> n)"

text \<open>The zero \<^verbatim>\<open>time.Time\<close>: January 1 of year 1, 00:00:00 UTC.\<close>

definition zeroTime :: gotime where
  "zeroTime = \<lparr>unixSec = - 62135596800, nanos = 0, loc = UTC\<rparr>"

definition norm :: "int \<Rightarrow> int \<Rightarrow> int \<Rightarrow> int \<times> int" where
  "norm hi lo base = (hi + lo div base, lo mod base)"

definition time_Unix :: "int \<Rightarrow> int \<Rightarrow> gotime" where
  "time_Unix sec nsec =
     (case norm sec nsec 1000000000 of
        (sec1, nsec1) \<Rightarrow> \<lparr>unixSec = sec1, nanos = nsec1, loc = Local\<rparr>)"

definition isLeap :: "int \<Rightarrow> bool" where
  "isLeap year = (year mod 4 = 0 \<and> (year mod 100 \<noteq> 0 \<or> year mod 400 = 0))"

definition daysBefore :: "int list" where
  "daysBefore = [0, 31, 59, 90, 120, 151, 181, 212, 243, 273, 304, 334, 365]"

text \<open>Days from January 1 of year 1 to January 1 of \<open>year\<close>; January 1, 1970 is day
  719162.\<close>

definition daysBeforeYear :: "int \<Rightarrow> int" where
  "daysBeforeYear year =
     (let y = year - 1 in 365 * y + y div 4 - y div 100 + y div 400)"

definition time_Date ::
  "int \<Rightarrow> int \<Rightarrow> int \<Rightarrow> int \<Rightarrow> int \<Rightarrow> int \<Rightarrow> int \<Rightarrow> location \<Rightarrow> gotime" where
  "time_Date year month day hour mi se nsec l =
     (let (year1, m) = norm year (month - 1) 12;
          month1 = m + 1;
          (se1, nsec1) = norm se nsec 1000000000;
          (mi1, se2) = norm mi se1 60;
          (hour1, mi2) = norm hour mi1 60;
          (day1, hour2) = norm day hour1 24;
          d = daysBeforeYear year1 - 719162 + daysBefore ! nat (month1 - 1)
              + (if isLeap year1 \<and> month1 \<ge> 3 then 1 else 0) + (day1 - 1);
          abs = d * 86400 + hour2 * 3600 + mi2 * 60 + se2
      in \<lparr>unixSec = abs - zoneOffset l, nanos = nsec1, loc = l\<rparr>)"

text \<open>Year and zero-based day of the year of a day counted from January 1 of year 1:
  400-year, 100-year, 4-year and 1-year cycles are cut off in turn.\<close>

definition absDate :: "int \<Rightarrow> int \<times> int" where
  "absDate d0 =
     (let n400 = d0 div 146097;
          d1 = d0 - 146097 * n400;
          n100 = d1 div 36524;
          n100' = n100 - n100 div 4;
          d2 = d1 - 36524 * n100';
          n4 = d2 div 1461;
          d3 = d2 - 1461 * n4;
          n1 = d3 div 365;
          n1' = n1 - n1 div 4;
          d4 = d3 - 365 * n1'
      in (1 + 400 * n400 + 100 * n100' + 4 * n4 + n1', d4))"

definition localSec :: "gotime \<Rightarrow> int" where
  "localSec t = unixSec t + zoneOffset (loc t)"

definition Time_YearDay :: "gotime \<Rightarrow> int" where
  "Time_YearDay t = snd (absDate (localSec t div 86400 + 719162)) + 1"

definition Time_Date :: "gotime \<Rightarrow> int \<times> int \<times> int" where
  "Time_Date t =
     (case absDate (localSec t div 86400 + 719162) of
        (year, yday) \<Rightarrow>
          if isLeap year \<and> yday = 31 + 29 - 1 then (year, 2, 29)
          else
            (let day = (if isLeap year \<and> yday > 31 + 29 - 1 then yday - 1 else yday);
                 month = day div 31;
                 end = daysBefore ! nat (month + 1);
                 (month1, begin) = (if day \<ge> end then (month + 1, end)
                                    else (month, daysBefore ! nat month))
             in (year, month1 + 1, day - begin + 1)))"

definition Time_Clock :: "gotime \<Rightarrow> int \<times> int \<times> int" where
  "Time_Clock t =
     (let s = localSec t mod 86400
      in (s div 3600, (s mod 3600) div 60, s mod 60))"

definition AddDate :: "gotime \<Rightarrow> int \<Rightarrow> int \<Rightarrow> int \<Rightarrow> gotime" where
  "AddDate t years months days =
     (case Time_Date t of
        (year, month, day) \<Rightarrow>
          (case Time_Clock t of
             (hour, mi, se) \<Rightarrow>
               time_Date (year + years) (month + months) (day + days) hour mi se
                 (nanos t) (loc t)))"

section \<open>The time accumulator and its sub-compiler\<close>

text \<open>Go's \<^verbatim>\<open>int\<close> has 64 bits; \<open>wrap64\<close> is written where a program value is
  multiplied or added without a bound that keeps it in range.\<close>

definition wrap64 :: "int \<Rightarrow> int" where
  "wrap64 x = (x + 2 ^ 63) mod 2 ^ 64 - 2 ^ 63"

record when_t =
  Year :: int
  Mon :: int
  Day :: int
  Hour :: int
  Min' :: int
  Sec :: int
  Frac :: int
  Zone :: int
  YearDay :: int
  Unix :: int

definition when_zero :: when_t where
  "when_zero = \<lparr>Year = 0, Mon = 0, Day = 0, Hour = 0, Min' = 0, Sec = 0, Frac = 0,
                 Zone = 0, YearDay = 0, Unix = 0\<rparr>"

definition Time :: "when_t \<Rightarrow> gotime" where
  "Time w0 =
     (if Unix w0 \<noteq> 0 then time_Unix (Unix w0) 0
      else
        (let w1 = (if Year w0 = 0 then w0\<lparr>Year := Year w0 + 1\<rparr> else w0);
             w2 = (if Mon w1 = 0 then w1\<lparr>Mon := Mon w1 + 1\<rparr> else w1);
             w = (if Day w2 = 0 then w2\<lparr>Day := Day w2 + 1\<rparr> else w2);
             zone = (if Zone w \<noteq> 0 then FixedZone (Zone w) else UTC);
             t = time_Date (Year w) (Mon w) (Day w) (Hour w) (Min' w) (Sec w) (Frac w) zone
         in if YearDay w > 0 then AddDate t 0 0 (YearDay w - Time_YearDay t + 1)
            else t))"

type_synonym whenfunc = "when_t step"

subsection \<open>The name tables, sorted by \<^verbatim>\<open>init\<close>\<close>

definition days_decl :: "rune list list" where
  "days_decl = map runes [''mon'', ''tue'', ''wed'', ''thu'', ''fri'', ''sat'', ''sun'']"

definition months_decl :: "rune list list" where
  "months_decl = map runes [''jan'', ''feb'', ''mar'', ''apr'', ''may'', ''jun'', ''jul'',
                            ''aug'', ''sep'', ''oct'', ''nov'', ''dec'']"

text \<open>\<^verbatim>\<open>sort.Strings\<close> orders strings byte by byte, which on runes is the
  lexicographic order of the code points. \<^verbatim>\<open>init\<close> runs before any other function of
  the package, so every use of the two tables sees them sorted.\<close>

definition days :: "rune list list" where
  "days = sort days_decl"

definition months :: "rune list list" where
  "months = sort months_decl"

text \<open>\<^verbatim>\<open>sort.Search\<close>: the binary search of the standard library, and
  \<^verbatim>\<open>sort.SearchStrings\<close> on top of it.\<close>

function SearchLoop :: "nat \<Rightarrow> nat \<Rightarrow> (nat \<Rightarrow> bool) \<Rightarrow> nat" where
  "SearchLoop i j f =
     (if i < j then
        (let h = (i + j) div 2
         in if \<not> f h then SearchLoop (h + 1) j f else SearchLoop i h f)
      else i)"
  by pat_completeness auto
termination
  by (relation "measure (\<lambda>(i, j, f). j - i)") auto

definition SearchStrings :: "rune list list \<Rightarrow> rune list \<Rightarrow> nat" where
  "SearchStrings a x = SearchLoop 0 (length a) (\<lambda>i. a ! i \<ge> x)"

text \<open>\<^verbatim>\<open>strings.ToLower\<close> on the strings it is given here, which hold ASCII letters
  only.\<close>

definition ToLower :: "rune list \<Rightarrow> rune list" where
  "ToLower str = map (\<lambda>c. if rn CHR ''A'' \<le> c \<and> c \<le> rn CHR ''Z'' then c + 32 else c) str"

subsection \<open>The scanners of the time specifiers\<close>

definition parseYear :: whenfunc where
  "parseYear w r =
     (case parseInt (Year w) 4 r isDigit of (err, v, r1) \<Rightarrow> Some (err, w\<lparr>Year := v\<rparr>, r1))"

definition parseDOY :: whenfunc where
  "parseDOY w r =
     (case parseInt (YearDay w) 3 r isDigit of
        (err, v, r1) \<Rightarrow> Some (err, w\<lparr>YearDay := v\<rparr>, r1))"

definition parseDay :: whenfunc where
  "parseDay w r =
     (case parseInt (Day w) 2 r isDigit of (err, v, r1) \<Rightarrow> Some (err, w\<lparr>Day := v\<rparr>, r1))"

definition parseDayStr :: whenfunc where
  "parseDayStr w r =
     (case parseString r 3 isLetter of
        None \<Rightarrow> None
      | Some (day, Some err, r1) \<Rightarrow> Some (Some err, w, r1)
      | Some (day, None, r1) \<Rightarrow>
          (let day1 = ToLower day;
               x = SearchStrings days day1
           in if x \<ge> length days \<or> days ! x \<noteq> day1 then Some (Some ErrPattern, w, r1)
              else Some (None, w, r1)))"

definition parseMonth :: whenfunc where
  "parseMonth w r =
     (case parseInt (Mon w) 2 r isDigit of (err, v, r1) \<Rightarrow> Some (err, w\<lparr>Mon := v\<rparr>, r1))"

definition parseMonthStr :: whenfunc where
  "parseMonthStr w r =
     (case parseString r 3 isLetter of
        None \<Rightarrow> None
      | Some (month, Some err, r1) \<Rightarrow> Some (Some err, w, r1)
      | Some (month, None, r1) \<Rightarrow>
          (let month1 = ToLower month;
               x = SearchStrings months month1
           in if x \<ge> length months \<or> months ! x \<noteq> month1
              then Some (Some ErrPattern, w, r1)
              else Some (None, w\<lparr>Mon := int x + 1\<rparr>, r1)))"

definition parseHour :: whenfunc where
  "parseHour w r =
     (case parseInt (Hour w) 2 r isDigit of (err, v, r1) \<Rightarrow> Some (err, w\<lparr>Hour := v\<rparr>, r1))"

definition parseMinute :: whenfunc where
  "parseMinute w r =
     (case parseInt (Min' w) 2 r isDigit of (err, v, r1) \<Rightarrow> Some (err, w\<lparr>Min' := v\<rparr>, r1))"

definition parseSecond :: whenfunc where
  "parseSecond w r =
     (case parseInt (Sec w) 2 r isDigit of (err, v, r1) \<Rightarrow> Some (err, w\<lparr>Sec := v\<rparr>, r1))"

definition parseTimestamp :: whenfunc where
  "parseTimestamp w r =
     (case parseInt (Unix w) 0 r isDigit of (err, v, r1) \<Rightarrow> Some (err, w\<lparr>Unix := v\<rparr>, r1))"

text \<open>In \<open>parseZone\<close> the local \<open>i\<close> receives the hours and then, through the same
  pointer, the minutes.\<close>

definition parseZone :: whenfunc where
  "parseZone w r =
     (case ReadRune r of
        (z, _, r1) \<Rightarrow>
          if z = rn CHR ''Z'' then Some (None, w, r1)
          else if z = rn CHR ''+'' \<or> z = rn CHR ''-'' then
            (let w1 = w\<lparr>Zone := wrap64 (Zone w + 1)\<rparr>;
                 w2 = (if z = rn CHR ''-'' then w1\<lparr>Zone := wrap64 (Zone w1 * (- 1))\<rparr> else w1)
             in case parseInt 0 2 r1 isDigit of
                  (Some err, i, r2) \<Rightarrow> Some (Some err, w2, r2)
                | (None, i, r2) \<Rightarrow>
                    (let w3 = w2\<lparr>Zone := wrap64 (Zone w2 * (i * 60 * 60))\<rparr>;
                         (z1, r3) = peek r2;
                         r4 = (if z1 = rn CHR '':'' then snd (snd (ReadRune r3)) else r3);
                         (z2, r5) = peek r4
                     in if isDigit z2 then
                          (case parseInt i 2 r5 isDigit of
                             (None, i2, r6) \<Rightarrow>
                               Some (None, w3\<lparr>Zone := wrap64 (Zone w3 + i2 * 60)\<rparr>, r6)
                           | (Some err, i2, r6) \<Rightarrow> Some (Some err, w3, r6))
                        else Some (None, w3, r5)))
          else Some (Some ErrPattern, w, r1))"

definition parseFraction :: whenfunc where
  "parseFraction w r =
     (case parseInt (Frac w) 0 r isDigit of
        (Some err, v, r1) \<Rightarrow> Some (Some err, w\<lparr>Frac := v\<rparr>, r1)
      | (None, v, r1) \<Rightarrow>
          Some (None,
                w\<lparr>Frac := (if v < 1000 then wrap64 (v * (1000 * 1000))
                            else if v < 1000 * 1000 then v * 1000
                            else v)\<rparr>,
                r1))"

definition parseWhenLiteral :: "rune list \<Rightarrow> whenfunc" where
  "parseWhenLiteral str = matchLiteral str"

definition mergeWhen :: "whenfunc list \<Rightarrow> whenfunc" where
  "mergeWhen wfs = mergeSteps wfs"

subsection \<open>Compiling a time template\<close>

definition isoPattern :: "rune list" where
  "isoPattern = runes ''%y-%m-%d %H:%M:%S%Z''"

definition rfcPattern :: "rune list" where
  "rfcPattern = runes ''%y-%m-%dT%H:%M:%S%Z''"

text \<open>
  The \<^verbatim>\<open>switch\<close> of \<open>parseTimePattern\<close> (lines 788 to 827). \<open>sub\<close> is the result of
  the recursive call \<^verbatim>\<open>parseTimePattern(isoPattern)\<close> that both \<^verbatim>\<open>%I\<close> and
  \<^verbatim>\<open>%R\<close> make.
\<close>

definition timeSpecifier :: "(error + whenfunc) \<Rightarrow> rune \<Rightarrow> error + whenfunc" where
  "timeSpecifier sub r =
     (if r = rn CHR ''I'' then sub
      else if r = rn CHR ''R'' then sub
      else if r = rn CHR ''y'' then Inr parseYear
      else if r = rn CHR ''m'' then Inr parseMonth
      else if r = rn CHR ''d'' then Inr parseDay
      else if r = rn CHR ''j'' then Inr parseDOY
      else if r = rn CHR ''a'' then Inr parseDayStr
      else if r = rn CHR ''b'' then Inr parseMonthStr
      else if r = rn CHR ''s'' then Inr parseTimestamp
      else if r = rn CHR ''H'' then Inr parseHour
      else if r = rn CHR ''M'' then Inr parseMinute
      else if r = rn CHR ''S'' then Inr parseSecond
      else if r = rn CHR ''f'' then Inr parseFraction
      else if r = rn CHR ''Z'' then Inr parseZone
      else Inl ErrSyntax)"

text \<open>
  The loop of \<open>parseTimePattern\<close> over the runes of the template that are still to be
  read. A \<^verbatim>\<open>%\<close> that ends the template is followed by the rune 0 of a failed
  \<^verbatim>\<open>ReadRune\<close>.
\<close>

fun timeLoop ::
  "(error + whenfunc) \<Rightarrow> rune list \<Rightarrow> rune list \<Rightarrow> whenfunc list \<Rightarrow> error + whenfunc" where
  "timeLoop sub [] buf wfs =
     Inr (mergeWhen (if buf \<noteq> [] then wfs @ [parseWhenLiteral buf] else wfs))"
| "timeLoop sub (r # str) buf wfs =
     (if r = rn CHR ''%'' then
        (let r2 = (case str of [] \<Rightarrow> 0 | c # _ \<Rightarrow> c);
             str2 = tl str
         in if r2 = rn CHR ''%'' then timeLoop sub str2 (buf @ [r2]) wfs
            else
              (let wfs1 = (if buf \<noteq> [] then wfs @ [parseWhenLiteral buf] else wfs)
               in case timeSpecifier sub r2 of
                    Inl err \<Rightarrow> Inl err
                  | Inr fn \<Rightarrow> timeLoop sub str2 [] (wfs1 @ [fn])))
      else timeLoop sub str (buf @ [r]) wfs)"

text \<open>The recursive call compiles \<open>isoPattern\<close>, which holds neither \<^verbatim>\<open>%I\<close> nor
  \<^verbatim>\<open>%R\<close>: the recursion is one call deep.\<close>

definition parseTimePattern_iso :: "error + whenfunc" where
  "parseTimePattern_iso = timeLoop (Inl ErrSyntax) isoPattern [] []"

definition parseTimePattern :: "rune list \<Rightarrow> error + whenfunc" where
  "parseTimePattern pattern =
     timeLoop parseTimePattern_iso (if pattern = [] then isoPattern else pattern) [] []"

section \<open>The host accumulator and its sub-compiler\<close>

record host =
  Name :: "rune list"
  Addr :: "rune list"
  Mask :: int
  Port :: int

definition host_zero :: host where
  "host_zero = \<lparr>Name = [], Addr = [], Mask = 0, Port = 0\<rparr>"

text \<open>\<^verbatim>\<open>strconv.Itoa\<close>, the verb \<^verbatim>\<open>%d\<close> and \<^verbatim>\<open>strconv.FormatInt\<close>: the digits of
  an integer in a base up to 16, with a minus sign when it is negative.\<close>

function natDigits :: "nat \<Rightarrow> nat \<Rightarrow> rune list" where
  "natDigits base n =
     (let d = n mod base;
          c = (if d < 10 then rn CHR ''0'' + d else rn CHR ''a'' + (d - 10))
      in if base < 2 \<or> n < base then [c] else natDigits base (n div base) @ [c])"
  by pat_completeness auto
termination
  by (relation "measure (\<lambda>(base, n). n)") auto

definition FormatInt :: "int \<Rightarrow> nat \<Rightarrow> rune list" where
  "FormatInt j base =
     (if j < 0 then rn CHR ''-'' # natDigits base (nat (- j)) else natDigits base (nat j))"

definition Itoa :: "int \<Rightarrow> rune list" where
  "Itoa j = FormatInt j 10"

definition host_String :: "host \<Rightarrow> rune list" where
  "host_String h =
     (if Name h \<noteq> [] then Name h else Addr h @ runes '':'' @ Itoa (Port h))"

type_synonym hostfunc = "host step"

definition ip4len :: nat where
  "ip4len = 4"

definition ip6len :: nat where
  "ip6len = 8"

definition parseHostLiteral :: "rune list \<Rightarrow> hostfunc" where
  "parseHostLiteral str = matchLiteral str"

definition mergeHost :: "hostfunc list \<Rightarrow> hostfunc" where
  "mergeHost hfs = mergeSteps hfs"

text \<open>The loop of \<open>parseIPv4\<close> (lines 1085 to 1101); \<open>j\<close> is a fresh variable, 0, in
  every round.\<close>

function ipv4Loop :: "nat \<Rightarrow> rune list \<Rightarrow> reader \<Rightarrow> (error + rune list) \<times> reader" where
  "ipv4Loop i buf r =
     (if i < ip4len then
        (case parseInt 0 0 r isDigit of
           (Some err, j, r1) \<Rightarrow> (Inl err, r1)
         | (None, j, r1) \<Rightarrow>
             if j < 0 \<or> j > 255 then (Inl ErrPattern, r1)
             else
               (let buf1 = buf @ Itoa j
                in if i < ip4len - 1 then
                     (case peek r1 of
                        (k, r2) \<Rightarrow>
                          if k \<noteq> rn CHR ''.'' then (Inl ErrPattern, r2)
                          else ipv4Loop (i + 1) (buf1 @ [rn CHR ''.''])
                                 (snd (snd (ReadRune r2))))
                   else ipv4Loop (i + 1) buf1 r1))
      else (Inr buf, r))"
  by pat_completeness auto
termination
  by (relation "measure (\<lambda>(i, buf, r). ip4len - i)") auto

definition parseIPv4 :: hostfunc where
  "parseIPv4 h r =
     (case peek r of
        (quote, r0) \<Rightarrow>
          (let r1 = (if quote = rn CHR ''['' then snd (snd (ReadRune r0)) else r0)
           in case ipv4Loop 0 [] r1 of
                (Inl err, r2) \<Rightarrow> Some (Some err, h, r2)
              | (Inr buf, r2) \<Rightarrow>
                  (case peek r2 of
                     (k, r3) \<Rightarrow>
                       if quote = rn CHR ''['' then
                         (if k \<noteq> rn CHR '']'' then Some (Some ErrPattern, h, r3)
                          else Some (None, h\<lparr>Addr := buf\<rparr>, snd (snd (ReadRune r3))))
                       else Some (None, h\<lparr>Addr := buf\<rparr>, r3))))"

function ipv6Loop :: "nat \<Rightarrow> rune list \<Rightarrow> reader \<Rightarrow> (error + rune list) \<times> reader" where
  "ipv6Loop i buf r =
     (if i < ip6len then
        (case parseInt 0 0 r isHexa of
           (Some err, j, r1) \<Rightarrow> (Inl err, r1)
         | (None, j, r1) \<Rightarrow>
             if j < 0 \<or> j > 65535 then (Inl ErrPattern, r1)
             else
               (let buf1 = buf @ FormatInt j 16
                in if i < ip6len - 1 then
                     (case peek r1 of
                        (k, r2) \<Rightarrow>
                          if k \<noteq> rn CHR '':'' then (Inr buf1, r2)
                          else
                            (let buf2 = buf1 @ [rn CHR '':''];
                                 r3 = snd (snd (ReadRune r2))
                             in case peek r3 of
                                  (k2, r4) \<Rightarrow>
                                    if k2 = rn CHR '':''
                                    then ipv6Loop (i + 1) (buf2 @ [rn CHR '':''])
                                           (snd (snd (ReadRune r4)))
                                    else ipv6Loop (i + 1) buf2 r4))
                   else ipv6Loop (i + 1) buf1 r1))
      else (Inr buf, r))"
  by pat_completeness auto
termination
  by (relation "measure (\<lambda>(i, buf, r). ip6len - i)") auto

definition parseIPv6 :: hostfunc where
  "parseIPv6 h r =
     (case peek r of
        (quote, r0) \<Rightarrow>
          (let r1 = (if quote = rn CHR ''['' then snd (snd (ReadRune r0)) else r0)
           in case ipv6Loop 0 [] r1 of
                (Inl err, r2) \<Rightarrow> Some (Some err, h, r2)
              | (Inr buf, r2) \<Rightarrow>
                  (case peek r2 of
                     (k, r3) \<Rightarrow>
                       if quote = rn CHR ''['' then
                         (if k \<noteq> rn CHR '']'' then Some (Some ErrPattern, h, r3)
                          else Some (None, h\<lparr>Addr := buf\<rparr>, snd (snd (ReadRune r3))))
                       else Some (None, h\<lparr>Addr := buf\<rparr>, r3))))"

definition parseMask :: hostfunc where
  "parseMask h r =
     (case parseInt (Mask h) 0 r isDigit of
        (Some err, v, r1) \<Rightarrow> Some (Some err, h\<lparr>Mask := v\<rparr>, r1)
      | (None, v, r1) \<Rightarrow>
          if v < 0 \<or> v > 32 then Some (Some ErrPattern, h\<lparr>Mask := v\<rparr>, r1)
          else Some (None, h\<lparr>Mask := v\<rparr>, r1))"

definition parsePort :: hostfunc where
  "parsePort h r =
     (case parseInt (Port h) 0 r isDigit of
        (Some err, v, r1) \<Rightarrow> Some (Some err, h\<lparr>Port := v\<rparr>, r1)
      | (None, v, r1) \<Rightarrow>
          if v < 0 \<or> v > 65535 then Some (Some ErrPattern, h\<lparr>Port := v\<rparr>, r1)
          else Some (None, h\<lparr>Port := v\<rparr>, r1))"

definition parseHostname :: hostfunc where
  "parseHostname h r =
     (case parseString r 0 isAlpha of
        None \<Rightarrow> None
      | Some (str, _, r1) \<Rightarrow> Some (None, h\<lparr>Name := str\<rparr>, r1))"

text \<open>The loop of \<open>parseFQDN\<close> (lines 1178 to 1186); \<open>None\<close> is a run that does not
  return.\<close>

partial_function (option) fqdnLoop :: "rune list \<Rightarrow> reader \<Rightarrow> (rune list \<times> reader) option" where
  "fqdnLoop buf r =
     (case parseString r 0 isAlpha of
        None \<Rightarrow> None
      | Some (part, _, r1) \<Rightarrow>
          (case peek r1 of
             (k, r2) \<Rightarrow>
               if k \<noteq> rn CHR ''.'' then Some (buf @ part, r2)
               else fqdnLoop (buf @ part @ [rn CHR ''.'']) (snd (snd (ReadRune r2)))))"

declare fqdnLoop.simps [code]

definition parseFQDN :: hostfunc where
  "parseFQDN h r =
     (case fqdnLoop [] r of
        None \<Rightarrow> None
      | Some (buf, r1) \<Rightarrow> Some (None, h\<lparr>Name := buf\<rparr>, r1))"

subsection \<open>Compiling a host template\<close>

definition ip4long :: "rune list" where
  "ip4long = runes ''%4:%p''"

definition ip6long :: "rune list" where
  "ip6long = runes ''%6:%p''"

definition fqdnlong :: "rune list" where
  "fqdnlong = runes ''%f:%p''"

text \<open>The \<^verbatim>\<open>switch\<close> of \<open>parseHostPattern\<close> (lines 1008 to 1041); \<open>sub\<close> gives the
  result of the recursive call on a shorthand's template.\<close>

definition hostSpecifier ::
  "(rune list \<Rightarrow> error + hostfunc) \<Rightarrow> rune \<Rightarrow> error + hostfunc" where
  "hostSpecifier sub r =
     (if r = rn CHR ''4'' then Inr parseIPv4
      else if r = rn CHR ''6'' then Inr parseIPv6
      else if r = rn CHR ''p'' then Inr parsePort
      else if r = rn CHR ''f'' then Inr parseFQDN
      else if r = rn CHR ''h'' then Inr parseHostname
      else if r = rn CHR ''m'' then Inr parseMask
      else if r = rn CHR ''F'' then sub ip4long
      else if r = rn CHR ''S'' then sub ip6long
      else if r = rn CHR ''Q'' then sub fqdnlong
      else Inl ErrSyntax)"

fun hostLoop ::
  "(rune list \<Rightarrow> error + hostfunc) \<Rightarrow> rune list \<Rightarrow> rune list \<Rightarrow> hostfunc list
     \<Rightarrow> error + hostfunc" where
  "hostLoop sub [] buf hfs =
     Inr (mergeHost (if buf \<noteq> [] then hfs @ [parseHostLiteral buf] else hfs))"
| "hostLoop sub (r # str) buf hfs =
     (if r = rn CHR ''%'' then
        (let r2 = (case str of [] \<Rightarrow> 0 | c # _ \<Rightarrow> c);
             str2 = tl str
         in if r2 = rn CHR ''%'' then hostLoop sub str2 (buf @ [r2]) hfs
            else
              (let hfs1 = (if buf \<noteq> [] then hfs @ [parseHostLiteral buf] else hfs)
               in case hostSpecifier sub r2 of
                    Inl err \<Rightarrow> Inl err
                  | Inr fn \<Rightarrow> hostLoop sub str2 [] (hfs1 @ [fn])))
      else hostLoop sub str (buf @ [r]) hfs)"

text \<open>The three shorthand templates hold no shorthand: the recursion is one call
  deep.\<close>

definition parseHostPattern_sub :: "rune list \<Rightarrow> error + hostfunc" where
  "parseHostPattern_sub pattern = hostLoop (\<lambda>_. Inl ErrSyntax) pattern [] []"

definition parseHostPattern :: "rune list \<Rightarrow> error + hostfunc" where
  "parseHostPattern pattern = hostLoop parseHostPattern_sub pattern [] []"

section \<open>Records and the steps of the entry pattern\<close>

record Entry =
  Line :: "rune list"
  Pid :: int
  Process :: "rune list"
  User :: "rune list"
  Group :: "rune list"
  Level :: "rune list"
  Message :: "rune list"
  Words :: "rune list list"
  Host :: "rune list"
  When :: gotime

definition Entry_zero :: Entry where
  "Entry_zero = \<lparr>Line = [], Pid = 0, Process = [], User = [], Group = [], Level = [],
                  Message = [], Words = [], Host = [], When = zeroTime\<rparr>"

type_synonym parsefunc = "Entry step"

type_synonym filterfunc = "Entry \<Rightarrow> bool"

definition mergeParse :: "parsefunc list \<Rightarrow> parsefunc" where
  "mergeParse pfs = mergeSteps pfs"

text \<open>\<^verbatim>\<open>unicode.IsSpace\<close> and \<^verbatim>\<open>strings.TrimSpace\<close>.\<close>

definition isSpace :: "rune \<Rightarrow> bool" where
  "isSpace c = ((9 \<le> c \<and> c \<le> 13) \<or> c = 32 \<or> c = 133 \<or> c = 160 \<or> c = 5760
                 \<or> (8192 \<le> c \<and> c \<le> 8202) \<or> c = 8232 \<or> c = 8233 \<or> c = 8239
                 \<or> c = 8287 \<or> c = 12288)"

definition TrimSpace :: "rune list \<Rightarrow> rune list" where
  "TrimSpace str = rev (dropWhile isSpace (rev (dropWhile isSpace str)))"

text \<open>\<^verbatim>\<open>strings.Split\<close> on a separator of one rune.\<close>

fun Split :: "rune list \<Rightarrow> rune \<Rightarrow> rune list list" where
  "Split [] sep = [[]]"
| "Split (c # cs) sep =
     (if c = sep then [] # Split cs sep
      else (c # hd (Split cs sep)) # tl (Split cs sep))"

definition parseLevel :: "rune list \<Rightarrow> error + parsefunc" where
  "parseLevel level0 =
     (let level = filter (\<lambda>r. \<not> isBlank r) level0;
          levels = (if level \<noteq> [] then sort (Split level (rn CHR '','')) else [])
      in Inr (\<lambda>e r.
           case parseString r 0 isLetter of
             None \<Rightarrow> None
           | Some (str, _, r1) \<Rightarrow>
               (let e1 = e\<lparr>Level := str\<rparr>;
                    x = SearchStrings levels str
                in if length levels > 0 \<and> (x \<ge> length levels \<or> levels ! x \<noteq> str)
                   then Some (Some ErrPattern, e1, r1)
                   else Some (None, e1, r1))))"

definition parseTime :: "rune list \<Rightarrow> error + parsefunc" where
  "parseTime str =
     (case parseTimePattern str of
        Inl err \<Rightarrow> Inl err
      | Inr parse \<Rightarrow>
          Inr (\<lambda>e r.
            case parse when_zero r of
              None \<Rightarrow> None
            | Some (None, w, r1) \<Rightarrow> Some (None, e\<lparr>When := Time w\<rparr>, r1)
            | Some (Some err, w, r1) \<Rightarrow> Some (Some err, e, r1)))"

definition parseHost :: "rune list \<Rightarrow> error + parsefunc" where
  "parseHost str =
     (case parseHostPattern str of
        Inl err \<Rightarrow> Inl err
      | Inr parse \<Rightarrow>
          Inr (\<lambda>e r.
            case parse host_zero r of
              None \<Rightarrow> None
            | Some (Some err, h, r1) \<Rightarrow> Some (Some err, e, r1)
            | Some (None, h, r1) \<Rightarrow> Some (None, e\<lparr>Host := host_String h\<rparr>, r1)))"

definition parsePID :: parsefunc where
  "parsePID e r =
     (case parseInt (Pid e) 0 r isDigit of (err, v, r1) \<Rightarrow> Some (err, e\<lparr>Pid := v\<rparr>, r1))"

definition parseLiteral :: "rune list \<Rightarrow> parsefunc" where
  "parseLiteral str = matchLiteral str"

definition parseMessage :: parsefunc where
  "parseMessage e r =
     (case parseString r 0 (\<lambda>r. \<not> isEOL r) of
        None \<Rightarrow> None
      | Some (str, _, r1) \<Rightarrow> Some (None, e\<lparr>Message := str\<rparr>, r1))"

text \<open>
  The loop of \<open>parseWord\<close> (lines 640 to 650) for a delimiter test \<open>isDelim\<close>. At the end
  of the input the loop sees rune 0 at every round; a test that neither stops nor fails
  on rune 0 keeps it running, which is the result \<open>None\<close>. Neither test of \<open>parseWord\<close>
  is of that kind.
\<close>

function wordLoop ::
  "(rune \<Rightarrow> bool \<times> error option) \<Rightarrow> rune list \<Rightarrow> reader
     \<Rightarrow> ((error + rune list) \<times> reader) option" where
  "wordLoop isDelim buf r =
     (case ReadRune r of
        (z, eof, r1) \<Rightarrow>
          (case isDelim z of
             (ok, Some err) \<Rightarrow> Some (Inl err, r1)
           | (ok, None) \<Rightarrow>
               if ok then Some (Inr buf, r1)
               else if eof \<noteq> None then None
               else wordLoop isDelim (buf @ [z]) r1))"
  by pat_completeness auto
termination
  by (relation "measure (\<lambda>(isDelim, buf, r). length (src r) - pos r)")
     (auto simp: ReadRune_def split: if_splits)

definition parseWord :: "rune list \<Rightarrow> parsefunc" where
  "parseWord str0 e r =
     (case peek r of
        (quote, r0) \<Rightarrow>
          (let isDelim = (if isQuote quote
                          then (\<lambda>c. if isEOL c then (False, Some ErrPattern)
                                     else (c = quote, None))
                          else (\<lambda>c. (isBlank c \<or> isEOL c, None)));
               r1 = (if isQuote quote then snd (snd (ReadRune r0)) else r0)
           in case wordLoop isDelim [] r1 of
                None \<Rightarrow> None
              | Some (Inl err, r2) \<Rightarrow> Some (Some err, e, r2)
              | Some (Inr buf, r2) \<Rightarrow>
                  (let r3 = (if \<not> isQuote quote then snd (UnreadRune r2) else r2);
                       str = TrimSpace buf
                   in Some (None,
                            (if str \<noteq> [] then e\<lparr>Words := Words e @ [str]\<rparr> else e),
                            r3))))"

definition parseUser :: parsefunc where
  "parseUser e r =
     (case parseString r 0 isAlpha of
        None \<Rightarrow> None
      | Some (str, _, r1) \<Rightarrow> Some (None, e\<lparr>User := str\<rparr>, r1))"

definition parseGroup :: parsefunc where
  "parseGroup e r =
     (case parseString r 0 isAlpha of
        None \<Rightarrow> None
      | Some (str, _, r1) \<Rightarrow> Some (None, e\<lparr>Group := str\<rparr>, r1))"

definition parseDiscard :: "rune \<Rightarrow> parsefunc" where
  "parseDiscard next e r =
     (case parseString r 0 (\<lambda>c. c \<noteq> next) of
        None \<Rightarrow> None
      | Some (_, _, r1) \<Rightarrow> Some (None, e, r1))"

definition parseProcess :: parsefunc where
  "parseProcess e r =
     (case parseString r 0 isAlpha of
        None \<Rightarrow> None
      | Some (str, _, r1) \<Rightarrow> Some (None, e\<lparr>Process := str\<rparr>, r1))"

definition parseBlank :: parsefunc where
  "parseBlank e r =
     (case parseString r 0 isBlank of
        None \<Rightarrow> None
      | Some (_, _, r1) \<Rightarrow> Some (None, e, r1))"

subsection \<open>Alternation\<close>

text \<open>
  The \<^verbatim>\<open>for\<close> loop of the closure that \<open>parseAlt\<close> builds (lines 521 to 530), with
  its variables \<open>seek\<close> and \<open>err\<close>. After a failed alternative the assignment
  \<^verbatim>\<open>seek, err = r.Seek(seek, io.SeekStart)\<close> overwrites both; the value returned
  after the loop is \<open>err\<close>. The loop does not look into the entry; it is written
  for a step on any value, of which \<^verbatim>\<open>parsefunc\<close> is the instance the program uses.
\<close>

fun altLoop :: "'a step list \<Rightarrow> int \<Rightarrow> error option \<Rightarrow> 'a step" where
  "altLoop [] seek err e r = Some (err, e, r)"
| "altLoop (pf # pfs) seek err e r =
     (case pf e r of
        None \<Rightarrow> None
      | Some (None, e1, r1) \<Rightarrow> Some (None, e1, r1)
      | Some (Some err1, e1, r1) \<Rightarrow>
          (case Seek r1 seek SeekStart of
             (seek1, Some err2, r2) \<Rightarrow> Some (Some err2, e1, r2)
           | (seek1, None, r2) \<Rightarrow> altLoop pfs seek1 None e1 r2))"

definition altFunc :: "'a step list \<Rightarrow> 'a step" where
  "altFunc pfs e r =
     (case Seek r 0 SeekCurrent of
        (seek, Some err, r1) \<Rightarrow> Some (Some err, e, r1)
      | (seek, None, r1) \<Rightarrow> altLoop pfs seek None e r1)"

definition parseAlt :: "parsefunc list \<Rightarrow> error + parsefunc" where
  "parseAlt pfs = (if length pfs = 0 then Inl ErrSyntax else Inr (altFunc pfs))"

subsection \<open>Observing the calls of an alternation\<close>



section \<open>The entry pattern compiler\<close>

text \<open>The loop of \<open>parseArgument\<close> (lines 470 to 479).\<close>

function argumentLoop :: "reader \<Rightarrow> rune list \<Rightarrow> (error + rune list) \<times> reader" where
  "argumentLoop str buf =
     (if Len str > 0 then
        (case ReadRune str of
           (r, _, str1) \<Rightarrow>
             if r = rn CHR '')'' then (Inr buf, str1)
             else if length (buf @ [r]) > 64 then (Inl ErrSyntax, str1)
             else argumentLoop str1 (buf @ [r]))
      else (Inl ErrSyntax, str))"
  by pat_completeness auto
termination
  by (relation "measure (\<lambda>(str, buf). length (src str) - pos str)")
     (auto simp: ReadRune_def Len_def split: if_splits)

text \<open>Without an opening parenthesis the default is returned together with the
  result of \<^verbatim>\<open>UnreadRune\<close>, which is an error when the pattern has ended. The
  third parameter of the source, \<^verbatim>\<open>what\<close>, only words the error message.\<close>

definition parseArgument :: "reader \<Rightarrow> rune list \<Rightarrow> (error + rune list) \<times> reader" where
  "parseArgument str opt =
     (case ReadRune str of
        (r, _, str1) \<Rightarrow>
          if r \<noteq> rn CHR ''('' then
            (if opt \<noteq> [] then
               (case UnreadRune str1 of
                  (None, str2) \<Rightarrow> (Inr opt, str2)
                | (Some err, str2) \<Rightarrow> (Inl err, str2))
             else (Inl ErrSyntax, str1))
          else argumentLoop str1 [])"

definition parseSpecifier :: "reader \<Rightarrow> rune \<Rightarrow> (error + parsefunc) \<times> reader" where
  "parseSpecifier str r =
     (if r = rn CHR ''t'' then
        (case parseArgument str rfcPattern of
           (Inl err, str1) \<Rightarrow> (Inl err, str1)
         | (Inr arg, str1) \<Rightarrow> (parseTime arg, str1))
      else if r = rn CHR ''b'' then (Inr parseBlank, str)
      else if r = rn CHR ''n'' then (Inr parseProcess, str)
      else if r = rn CHR ''p'' then (Inr parsePID, str)
      else if r = rn CHR ''u'' then (Inr parseUser, str)
      else if r = rn CHR ''g'' then (Inr parseGroup, str)
      else if r = rn CHR ''h'' then
        (case parseArgument str (runes ''%f'') of
           (Inl err, str1) \<Rightarrow> (Inl err, str1)
         | (Inr arg, str1) \<Rightarrow> (parseHost arg, str1))
      else if r = rn CHR ''l'' then
        (case parseArgument str (runes ''-'') of
           (Inl err, str1) \<Rightarrow> (Inl err, str1)
         | (Inr arg, str1) \<Rightarrow> (parseLevel (if arg = runes ''-'' then [] else arg), str1))
      else if r = rn CHR ''m'' then (Inr parseMessage, str)
      else if r = rn CHR ''w'' then (Inr (parseWord []), str)
      else if r = rn CHR ''*'' then
        (case peek str of (next, str1) \<Rightarrow> (Inr (parseDiscard next), str1))
      else (Inl ErrSyntax, str))"

text \<open>
  \<open>parsePatternUntil\<close> and \<open>parseAlternative\<close> call each other, each from inside its
  loop. The model runs the two loops on a bound \<open>fuel\<close> for the number of rounds, so
  that they are defined by recursion on it; the result \<open>None\<close> is a run that has not
  returned within the bound. Every round but one at the end of the pattern reads a rune,
  and at the end of the pattern the loop of \<open>parsePatternUntil\<close> either stops
  (\<open>until\<close> holds of rune 0) or buffers rune 0 for ever, which is \<open>None\<close> too.

  As in the source, the literal buffered before an \<^verbatim>\<open>@\<close> is not flushed before the
  alternation is appended.
\<close>

definition flushLiteral :: "parsefunc list \<Rightarrow> rune list \<Rightarrow> parsefunc list" where
  "flushLiteral pfs buf = (if length buf > 0 then pfs @ [parseLiteral buf] else pfs)"

fun parsePatternUntilLoop ::
  "nat \<Rightarrow> reader \<Rightarrow> (rune \<Rightarrow> bool) \<Rightarrow> parsefunc list \<Rightarrow> rune list
     \<Rightarrow> (rune \<times> (error + parsefunc) \<times> reader) option"
and parseAlternativeLoop ::
  "nat \<Rightarrow> reader \<Rightarrow> parsefunc list \<Rightarrow> ((error + parsefunc) \<times> reader) option" where
  "parsePatternUntilLoop 0 str until pfs buf = None"
| "parsePatternUntilLoop (Suc fuel) str until pfs buf =
     (case ReadRune str of
        (last1, eof, str1) \<Rightarrow>
          if until last1 then Some (last1, Inr (mergeParse (flushLiteral pfs buf)), str1)
          else if last1 = rn CHR ''%'' then
            (case ReadRune str1 of
               (last2, _, str2) \<Rightarrow>
                 if last2 = rn CHR ''%''
                 then parsePatternUntilLoop fuel str2 until pfs (buf @ [last2])
                 else
                   (case parseSpecifier str2 last2 of
                      (Inl err, str3) \<Rightarrow> Some (last2, Inl err, str3)
                    | (Inr fn, str3) \<Rightarrow>
                        parsePatternUntilLoop fuel str3 until
                          (flushLiteral pfs buf @ [fn]) []))
          else if last1 = rn CHR ''@'' then
            (case ReadRune str1 of
               (r, _, str2) \<Rightarrow>
                 if r \<noteq> rn CHR ''('' then Some (last1, Inl ErrSyntax, str2)
                 else
                   (case parseAlternativeLoop fuel str2 [] of
                      None \<Rightarrow> None
                    | Some (Inl err, str3) \<Rightarrow> Some (last1, Inl err, str3)
                    | Some (Inr fn, str3) \<Rightarrow>
                        parsePatternUntilLoop fuel str3 until (pfs @ [fn]) buf))
          else if last1 = 92 then
            (case ReadRune str1 of
               (last2, _, str2) \<Rightarrow>
                 if last2 = 92 \<or> last2 = rn CHR ''@'' \<or> last2 = rn CHR ''*''
                    \<or> last2 = rn CHR ''('' \<or> last2 = rn CHR '')'' \<or> last2 = rn CHR ''|''
                 then parsePatternUntilLoop fuel str2 until pfs (buf @ [last2])
                 else Some (last2, Inl ErrEscape, str2))
          else if eof \<noteq> None then None
          else parsePatternUntilLoop fuel str1 until pfs (buf @ [last1]))"
| "parseAlternativeLoop 0 str pfs = None"
| "parseAlternativeLoop (Suc fuel) str pfs =
     (case parsePatternUntilLoop fuel str (\<lambda>r. r = rn CHR ''|'' \<or> r = rn CHR '')'') [] [] of
        None \<Rightarrow> None
      | Some (last1, Inl err, str1) \<Rightarrow> Some (Inl err, str1)
      | Some (last1, Inr fn, str1) \<Rightarrow>
          if last1 \<noteq> rn CHR ''|'' \<and> last1 \<noteq> rn CHR '')'' then Some (Inl ErrSyntax, str1)
          else if last1 = rn CHR '')'' then Some (parseAlt (pfs @ [fn]), str1)
          else parseAlternativeLoop fuel str1 (pfs @ [fn]))"

definition parsePatternUntil ::
  "nat \<Rightarrow> reader \<Rightarrow> (rune \<Rightarrow> bool) \<Rightarrow> (rune \<times> (error + parsefunc) \<times> reader) option" where
  "parsePatternUntil fuel str until = parsePatternUntilLoop fuel str until [] []"

text \<open>\<open>parseAlternative\<close> is the test for the parenthesis, written out in the loop
  above, followed by its loop.\<close>

definition parseAlternative ::
  "nat \<Rightarrow> reader \<Rightarrow> ((error + parsefunc) \<times> reader) option" where
  "parseAlternative fuel str =
     (case ReadRune str of
        (r, _, str1) \<Rightarrow>
          if r \<noteq> rn CHR ''('' then Some (Inl ErrSyntax, str1)
          else parseAlternativeLoop fuel str1 [])"

definition parsePattern :: "rune list \<Rightarrow> (error + parsefunc) option" where
  "parsePattern pattern =
     (if pattern = [] then Some (Inl ErrSyntax)
      else
        (case parsePatternUntil (2 * length pattern + 2) (bytes_NewReader pattern)
                (\<lambda>r. r = 0) of
           None \<Rightarrow> None
         | Some (_, fn, _) \<Rightarrow> Some fn))"

definition parseFilter :: "rune list \<Rightarrow> error + filterfunc option" where
  "parseFilter str = (if str = [] then Inr (Some (\<lambda>_. True)) else Inr None)"

section \<open>The stream reader\<close>

text \<open>
  The \<^verbatim>\<open>bufio.Scanner\<close> of a reader delivers the lines of the stream one by one and
  then stops, with the error of the stream if it failed. The model keeps the lines that
  are still to be delivered (\<open>inner\<close>) and the error that \<^verbatim>\<open>Err\<close> reports once they
  are used up (\<open>innerErr\<close>). \<open>sticky\<close> is the field \<^verbatim>\<open>err\<close> of the reader.
\<close>

record Reader =
  inner :: "rune list list"
  innerErr :: "error option"
  sticky :: "error option"
  keep :: "filterfunc option"
  parse :: parsefunc

definition NewReader ::
  "rune list list \<Rightarrow> error option \<Rightarrow> rune list \<Rightarrow> rune list \<Rightarrow> (error + Reader) option" where
  "NewReader rs rsErr pattern filter0 =
     (case parsePattern pattern of
        None \<Rightarrow> None
      | Some (Inl err) \<Rightarrow> Some (Inl err)
      | Some (Inr fn) \<Rightarrow>
          (case parseFilter filter0 of
             Inl err \<Rightarrow> Some (Inl err)
           | Inr k \<Rightarrow>
               Some (Inr \<lparr>inner = rs, innerErr = rsErr, sticky = None,
                          keep = k, parse = fn\<rparr>)))"

text \<open>
  The loop of \<open>Read\<close> (lines 140 to 164) over the lines still to be delivered. The
  entry \<open>e\<close> is the one variable declared at line 136, before the loop.
\<close>

fun ReadLoop :: "Reader \<Rightarrow> Entry \<Rightarrow> rune list list \<Rightarrow> (Entry \<times> error option \<times> Reader) option" where
  "ReadLoop r e [] =
     (let er = (case innerErr r of None \<Rightarrow> Some EOF | Some x \<Rightarrow> Some x)
      in Some (e, er, r\<lparr>inner := [], sticky := er\<rparr>))"
| "ReadLoop r e (line # rest) =
     (if length line = 0 then ReadLoop r e rest
      else
        (case parse r e (bytes_NewReader line) of
           None \<Rightarrow> None
         | Some (Some er, e1, _) \<Rightarrow>
             if er = ErrPattern then ReadLoop r e1 rest
             else Some (e1, Some er, r\<lparr>inner := rest, sticky := Some er\<rparr>)
         | Some (None, e1, _) \<Rightarrow>
             if (case keep r of None \<Rightarrow> True | Some k \<Rightarrow> k e1)
             then Some (e1\<lparr>Line := line\<rparr>, sticky r, r\<lparr>inner := rest\<rparr>)
             else ReadLoop r e1 rest))"

definition Read :: "Reader \<Rightarrow> (Entry \<times> error option \<times> Reader) option" where
  "Read r =
     (case sticky r of
        Some er \<Rightarrow> Some (Entry_zero, Some er, r)
      | None \<Rightarrow> ReadLoop r Entry_zero (inner r))"

partial_function (option) ReadAllLoop ::
  "Reader \<Rightarrow> Entry list \<Rightarrow> (Entry list \<times> error option \<times> Reader) option" where
  "ReadAllLoop r es =
     (case Read r of
        None \<Rightarrow> None
      | Some (e, Some er, r1) \<Rightarrow> Some (es, Some er, r1)
      | Some (e, None, r1) \<Rightarrow> ReadAllLoop r1 (es @ [e]))"

declare ReadAllLoop.simps [code]

definition ReadAll :: "Reader \<Rightarrow> (Entry list \<times> error option \<times> Reader) option" where
  "ReadAll r = ReadAllLoop r []"

text \<open>Compiling a pattern and reading from a stream of lines that does not fail: the
  entry and the error of the first \<open>Read\<close>, and the entries and the error of
  \<open>ReadAll\<close>.\<close>

definition readFirst :: "rune list \<Rightarrow> rune list list \<Rightarrow> (Entry \<times> error option) option" where
  "readFirst pattern ls =
     (case NewReader ls None pattern [] of
        None \<Rightarrow> None
      | Some (Inl er) \<Rightarrow> None
      | Some (Inr r) \<Rightarrow>
          (case Read r of
             None \<Rightarrow> None
           | Some (e, er, _) \<Rightarrow> Some (e, er)))"

definition readAll :: "rune list \<Rightarrow> rune list list \<Rightarrow> (Entry list \<times> error option) option" where
  "readAll pattern ls =
     (case NewReader ls None pattern [] of
        None \<Rightarrow> None
      | Some (Inl er) \<Rightarrow> None
      | Some (Inr r) \<Rightarrow>
          (case ReadAll r of
             None \<Rightarrow> None
           | Some (es, er, _) \<Rightarrow> Some (es, er)))"

section \<open>Facts about the model\<close>

subsection \<open>The bound of the compiler loops\<close>

text \<open>A result that the two loops of the compiler return within a bound is the result
  they return within every larger bound: what the compiler returns does not depend on the
  bound it is run with.\<close>

lemma compile_fuel_mono:
  "(\<forall>str until pfs buf x. parsePatternUntilLoop n str until pfs buf = Some x \<longrightarrow>
      parsePatternUntilLoop (n + k) str until pfs buf = Some x)
   \<and> (\<forall>str pfs y. parseAlternativeLoop n str pfs = Some y \<longrightarrow>
      parseAlternativeLoop (n + k) str pfs = Some y)"
proof (induction n)
  case 0
  then show ?case by simp
next
  case (Suc n)
  have pp: "\<And>str until pfs buf x. parsePatternUntilLoop n str until pfs buf = Some x \<Longrightarrow>
      parsePatternUntilLoop (n + k) str until pfs buf = Some x"
    using Suc.IH by blast
  have pa: "\<And>str pfs y. parseAlternativeLoop n str pfs = Some y \<Longrightarrow>
      parseAlternativeLoop (n + k) str pfs = Some y"
    using Suc.IH by blast
  have A: "parseAlternativeLoop (Suc n + k) str pfs = Some y"
    if a: "parseAlternativeLoop (Suc n) str pfs = Some y" for str pfs y
  proof -
    from a obtain z where z: "parsePatternUntilLoop n str (\<lambda>r. r = rn CHR ''|'' \<or> r = rn CHR '')'') [] [] = Some z"
      by (cases "parsePatternUntilLoop n str (\<lambda>r. r = rn CHR ''|'' \<or> r = rn CHR '')'') [] []") auto
    note z' = pp [OF z]
    obtain l res s1 where zz: "z = (l, res, s1)" by (cases z)
    show ?thesis
    proof (cases res)
      case (Inl err)
      with a z z' zz show ?thesis by auto
    next
      case (Inr fn)
      show ?thesis
      proof (cases "l \<noteq> rn CHR ''|'' \<and> l \<noteq> rn CHR '')'' \<or> l = rn CHR '')''")
        case True
        with a z z' zz Inr show ?thesis by auto
      next
        case False
        with a z zz Inr have "parseAlternativeLoop n s1 (pfs @ [fn]) = Some y" by auto
        from pa [OF this] False z' zz Inr show ?thesis by auto
      qed
    qed
  qed
  have P: "parsePatternUntilLoop (Suc n + k) str until pfs buf = Some x"
    if a: "parsePatternUntilLoop (Suc n) str until pfs buf = Some x" for str until pfs buf x
  proof -
    obtain l eof s1 where rd: "ReadRune str = (l, eof, s1)" by (cases "ReadRune str")
    obtain l2 eof2 s2 where rd2: "ReadRune s1 = (l2, eof2, s2)" by (cases "ReadRune s1")
    show ?thesis
    proof (cases "until l")
      case True
      with a rd show ?thesis by simp
    next
      case nu: False
      show ?thesis
      proof (cases "l = rn CHR ''%''")
        case True
        show ?thesis
        proof (cases "l2 = rn CHR ''%''")
          case True
          with a rd rd2 nu \<open>l = rn CHR ''%''\<close>
          have "parsePatternUntilLoop n s2 until pfs (buf @ [l2]) = Some x" by simp
          from pp [OF this] rd rd2 nu \<open>l = rn CHR ''%''\<close> True show ?thesis by simp
        next
          case False
          obtain res s3 where sp: "parseSpecifier s2 l2 = (res, s3)" by (cases "parseSpecifier s2 l2")
          show ?thesis
          proof (cases res)
            case (Inl err)
            with a rd rd2 nu \<open>l = rn CHR ''%''\<close> False sp show ?thesis by simp
          next
            case (Inr fn)
            with a rd rd2 nu \<open>l = rn CHR ''%''\<close> False sp
            have "parsePatternUntilLoop n s3 until (flushLiteral pfs buf @ [fn]) [] = Some x" by simp
            from pp [OF this] rd rd2 nu \<open>l = rn CHR ''%''\<close> False sp Inr show ?thesis by simp
          qed
        qed
      next
        case np: False
        show ?thesis
        proof (cases "l = rn CHR ''@''")
          case True
          show ?thesis
          proof (cases "l2 \<noteq> rn CHR ''(''")
            case True
            with a rd rd2 nu np \<open>l = rn CHR ''@''\<close> show ?thesis by simp
          next
            case False
            with a rd rd2 nu np \<open>l = rn CHR ''@''\<close>
            obtain y where y: "parseAlternativeLoop n s2 [] = Some y"
              by (cases "parseAlternativeLoop n s2 []") auto
            note y' = pa [OF y]
            obtain res s3 where yy: "y = (res, s3)" by (cases y)
            show ?thesis
            proof (cases res)
              case (Inl err)
              with a rd rd2 nu np \<open>l = rn CHR ''@''\<close> False y y' yy show ?thesis by simp
            next
              case (Inr fn)
              with a rd rd2 nu np \<open>l = rn CHR ''@''\<close> False y yy
              have "parsePatternUntilLoop n s3 until (pfs @ [fn]) buf = Some x" by simp
              from pp [OF this] rd rd2 nu np \<open>l = rn CHR ''@''\<close> False y' yy Inr
              show ?thesis by simp
            qed
          qed
        next
          case na: False
          show ?thesis
          proof (cases "l = 92")
            case True
            show ?thesis
            proof (cases "l2 = 92 \<or> l2 = rn CHR ''@'' \<or> l2 = rn CHR ''*''
                    \<or> l2 = rn CHR ''('' \<or> l2 = rn CHR '')'' \<or> l2 = rn CHR ''|''")
              case esc: True
              with a rd rd2 nu np na \<open>l = 92\<close>
              have "parsePatternUntilLoop n s2 until pfs (buf @ [l2]) = Some x"
                by (simp del: One_nat_def)
              from pp [OF this] rd rd2 nu np na \<open>l = 92\<close> esc show ?thesis
                by (simp del: One_nat_def)
            next
              case False
              with a rd rd2 nu np na \<open>l = 92\<close> show ?thesis by simp
            qed
          next
            case nb: False
            with a rd nu np na have e: "eof = None"
              by (cases eof) auto
            with a rd nu np na nb
            have "parsePatternUntilLoop n s1 until pfs (buf @ [l]) = Some x" by simp
            from pp [OF this] rd nu np na nb e show ?thesis by simp
          qed
        qed
      qed
    qed
  qed
  from A P show ?case by blast
qed

lemma parsePatternUntil_fuel_mono:
  "parsePatternUntil n str until = Some x \<Longrightarrow> n \<le> m \<Longrightarrow>
   parsePatternUntil m str until = Some x"
  using compile_fuel_mono [of n "m - n"] by (cases x) (auto simp: parsePatternUntil_def)

subsection \<open>The two seeks of an alternation\<close>

text \<open>Neither \<^verbatim>\<open>Seek\<close> of the closure of \<open>parseAlt\<close> fails: the first asks for
  the current position, the second goes back to it.\<close>

lemma Seek_start_pos:
  "Seek r1 (int p) SeekStart = (int p, None, r1\<lparr>prevRune := None, pos := p\<rparr>)"
  by (simp add: Seek_def Let_def)

lemma Seek_current_zero:
  "Seek r 0 SeekCurrent = (int (pos r), None, r\<lparr>prevRune := None, pos := pos r\<rparr>)"
  by (simp add: Seek_def Let_def)

section \<open>The claims\<close>

subsection \<open>C1: the first scenario\<close>

text \<open>
  C1 reads: for the pattern \<^verbatim>\<open>%t %n[%p]: %m\<close>, with \<^verbatim>\<open>%t\<close> taking its default
  argument, and the single line \<^verbatim>\<open>2023-05-01 10:22:31 sshd[1234]: Accepted password\<close>,
  \<open>Read\<close> returns a record with process \<^verbatim>\<open>sshd\<close>, pid 1234, message
  \<^verbatim>\<open>Accepted password\<close> and the time 2023-05-01T10:22:31 UTC.

  The default argument is \<open>rfcPattern\<close>, which asks for \<^verbatim>\<open>T\<close> between the date and
  the time and for a zone after the seconds. On the line of the claim the literal
  \<^verbatim>\<open>T\<close> meets a space: the line is skipped, the stream is at its end, and \<open>Read\<close>
  returns the zero entry with \<^verbatim>\<open>io.EOF\<close>.
\<close>

theorem C1_spec_line_counterexample:
  "readFirst (runes ''%t %n[%p]: %m'')
     [runes ''2023-05-01 10:22:31 sshd[1234]: Accepted password'']
   = Some (Entry_zero, Some EOF)
   \<and> Process Entry_zero \<noteq> runes ''sshd'' \<and> Pid Entry_zero \<noteq> 1234"
  by code_simp

text \<open>
  C1, amended: for the same pattern and the single line
  \<^verbatim>\<open>2023-05-01T10:22:31Z sshd[1234]: Accepted password\<close>, written in the shape of the
  default template, \<open>Read\<close> returns without error a record with process \<^verbatim>\<open>sshd\<close>,
  pid 1234, message \<^verbatim>\<open>Accepted password\<close> and the instant 2023-05-01T10:22:31 UTC,
  which is 1682936551 seconds after the Unix epoch.
\<close>

theorem C1_rfc3339_line_record:
  "readFirst (runes ''%t %n[%p]: %m'')
     [runes ''2023-05-01T10:22:31Z sshd[1234]: Accepted password'']
   = Some (\<lparr>Line = runes ''2023-05-01T10:22:31Z sshd[1234]: Accepted password'',
             Pid = 1234, Process = runes ''sshd'', User = [], Group = [], Level = [],
             Message = runes ''Accepted password'', Words = [], Host = [],
             When = time_Date 2023 5 1 10 22 31 0 UTC\<rparr>, None)
   \<and> time_Date 2023 5 1 10 22 31 0 UTC = \<lparr>unixSec = 1682936551, nanos = 0, loc = UTC\<rparr>"
  by code_simp

text \<open>With empty parentheses the template is \<open>isoPattern\<close>, which has the space; the
  line of C1 still has no zone for its \<^verbatim>\<open>%Z\<close>, and is skipped as well.\<close>

lemma spec_line_under_isoPattern:
  "readFirst (runes ''%t() %n[%p]: %m'')
     [runes ''2023-05-01 10:22:31 sshd[1234]: Accepted password'']
   = Some (Entry_zero, Some EOF)"
  by code_simp

subsection \<open>C2: lines that do not match\<close>

text \<open>What holds of \<open>Read\<close>: a line on which the chain returns \<open>ErrPattern\<close> is passed
  over, and the loop goes on with the next line and the entry as the chain left it.\<close>

lemma ReadLoop_ErrPattern_next_line:
  "line \<noteq> [] \<Longrightarrow> parse r e (bytes_NewReader line) = Some (Some ErrPattern, e1, r1) \<Longrightarrow>
   ReadLoop r e (line # rest) = ReadLoop r e1 rest"
  by simp

text \<open>
  C2 reads: a line on which the chain does not match, also one that ends before the
  chain has all it needs and one with text that is no digit where \<^verbatim>\<open>%p\<close> expects
  digits, is never returned as a record and never ends the stream.

  The code at two such lines. With the pattern \<^verbatim>\<open>%n[%p]\<close> the line \<^verbatim>\<open>sshd[\<close> ends
  where \<^verbatim>\<open>%p\<close> starts: \<open>parseInt\<close> returns the \<^verbatim>\<open>io.EOF\<close> of \<^verbatim>\<open>ReadRune\<close>,
  \<open>Read\<close> keeps it, and \<open>ReadAll\<close> returns no entry although the next line
  matches (alone, it is returned). With the pattern \<^verbatim>\<open>%p\<close> the line \<^verbatim>\<open>abc\<close> has no
  digit: \<open>parseInt\<close> returns \<^verbatim>\<open>nil\<close> and the line is returned as a record.
\<close>

theorem C2_short_line_ends_stream_nondigit_line_returned:
  "readAll (runes ''%n[%p]'') [runes ''sshd['', runes ''sshd[1]''] = Some ([], Some EOF)
   \<and> readAll (runes ''%n[%p]'') [runes ''sshd[1]'']
       = Some ([Entry_zero\<lparr>Line := runes ''sshd[1]'', Pid := 1, Process := runes ''sshd''\<rparr>],
               Some EOF)
   \<and> readFirst (runes ''%p'') [runes ''abc'', runes ''12 '']
       = Some (Entry_zero\<lparr>Line := runes ''abc''\<rparr>, None)"
  by code_simp

subsection \<open>C3: an alternation whose alternatives all fail\<close>

text \<open>
  C3 reads: when every alternative of an alternation signals a mismatch, the compiled
  alternation returns a mismatch, with the cursor back where the alternation began.

  The code on \<^verbatim>\<open>@(a|b)\<close> and the line \<^verbatim>\<open>c\<close>: both alternatives return
  \<open>ErrPattern\<close>, the alternation returns \<^verbatim>\<open>nil\<close> with the cursor at 0, and \<open>Read\<close>
  returns the line as a record.
\<close>

theorem C3_all_alternatives_fail_alternation_succeeds:
  "parseLiteral (runes ''a'') Entry_zero (bytes_NewReader (runes ''c''))
     = Some (Some ErrPattern, Entry_zero, \<lparr>src = runes ''c'', pos = 1, prevRune = Some 0\<rparr>)
   \<and> parseLiteral (runes ''b'') Entry_zero (bytes_NewReader (runes ''c''))
     = Some (Some ErrPattern, Entry_zero, \<lparr>src = runes ''c'', pos = 1, prevRune = Some 0\<rparr>)
   \<and> altFunc [parseLiteral (runes ''a''), parseLiteral (runes ''b'')] Entry_zero
         (bytes_NewReader (runes ''c''))
     = Some (None, Entry_zero, \<lparr>src = runes ''c'', pos = 0, prevRune = None\<rparr>)
   \<and> readFirst (runes ''@(a|b)'') [runes ''c'']
     = Some (Entry_zero\<lparr>Line := runes ''c''\<rparr>, None)"
  by code_simp

text \<open>It is so on every input: whatever its alternatives return, an alternation that
  returns returns \<^verbatim>\<open>nil\<close>.\<close>

lemma altLoop_never_fails:
  "altLoop pfs (int p) None e r = Some (er, e1, r1) \<Longrightarrow> er = None"
proof (induction pfs arbitrary: e r)
  case Nil
  then show ?case by simp
next
  case (Cons pf pfs)
  then show ?case
    by (auto simp: Seek_start_pos split: option.splits prod.splits)
qed

lemma altFunc_never_fails:
  "altFunc pfs e r = Some (er, e1, r1) \<Longrightarrow> er = None"
  by (auto simp: altFunc_def Seek_current_zero dest: altLoop_never_fails)

subsection \<open>C4: the record in progress across lines\<close>

text \<open>
  C4 reads: the record returned by one \<open>Read\<close> holds no value written while an earlier
  line, discarded in the same call, was processed.

  The code on \<^verbatim>\<open>%w x\<close> and the lines \<^verbatim>\<open>a y\<close>, \<^verbatim>\<open>b x\<close>: the first line is
  discarded after \<^verbatim>\<open>%w\<close> has appended \<^verbatim>\<open>a\<close>, and the record returned for the
  second line holds the words \<^verbatim>\<open>a\<close> and \<^verbatim>\<open>b\<close>.
\<close>

theorem C4_word_of_discarded_line_in_record:
  "readFirst (runes ''%w x'') [runes ''a y'', runes ''b x'']
   = Some (Entry_zero\<lparr>Line := runes ''b x'', Words := [runes ''a'', runes ''b'']\<rparr>, None)"
  by code_simp

subsection \<open>C5: the order of the alternatives and the cursor at each\<close>





text \<open>The same without a log: alternatives that do not return unless the cursor is at
  the position where the alternation began give the same alternation.\<close>

lemma altLoop_only_at_start:
  "pos r = p \<Longrightarrow>
   altLoop (map (\<lambda>pf x r'. if pos r' = p then pf x r' else None) pfs) (int p) err e r
   = altLoop pfs (int p) err e r"
proof (induction pfs arbitrary: e r err)
  case Nil
  then show ?case by simp
next
  case (Cons pf pfs)
  then show ?case
    by (auto simp: Seek_start_pos split: option.splits prod.splits)
qed

lemma altFunc_only_at_start:
  "altFunc (map (\<lambda>pf x r'. if pos r' = pos r then pf x r' else None) pfs) e r
   = altFunc pfs e r"
  by (simp add: altFunc_def Seek_current_zero altLoop_only_at_start)

text \<open>Through the compiler: the alternatives of \<^verbatim>\<open>@(hello!|hello )\<close> are compiled in
  the order in which they are written, and the second one matches from the start of the
  line after the first has failed on its sixth rune.\<close>

lemma alternation_compiled_in_order:
  "readFirst (runes ''@(hello!|hello )%m'') [runes ''hello world'']
   = Some (Entry_zero\<lparr>Line := runes ''hello world'', Message := runes ''world''\<rparr>, None)"
  by code_simp

subsection \<open>C6: the Unix-epoch component\<close>

text \<open>What \<open>Time\<close> does with its components: a Unix component other than 0 decides
  alone, and without it a year, month or day of 0 is taken as 1.\<close>

lemma Time_Unix_first:
  "Unix w \<noteq> 0 \<Longrightarrow> Time w = time_Unix (Unix w) 0"
  by (simp add: Time_def)

lemma Time_calendar_defaults:
  "Unix w = 0 \<Longrightarrow> YearDay w \<le> 0 \<Longrightarrow>
   Time w = time_Date (if Year w = 0 then 1 else Year w) (if Mon w = 0 then 1 else Mon w)
              (if Day w = 0 then 1 else Day w) (Hour w) (Min' w) (Sec w) (Frac w)
              (if Zone w \<noteq> 0 then FixedZone (Zone w) else UTC)"
  by (simp add: Time_def Let_def)

text \<open>
  C6 reads: \<open>Time\<close> returns \<^verbatim>\<open>time.Unix(unix, 0)\<close> whenever the Unix component was
  populated; otherwise year, month and day default to 1; in particular \<^verbatim>\<open>%s\<close>
  against \<^verbatim>\<open>1690000000\<close> yields the instant 1690000000 seconds after the epoch.

  The code on that input: the digits run to the end of the line, \<open>parseInt\<close> returns
  the \<^verbatim>\<open>io.EOF\<close> of \<^verbatim>\<open>ReadRune\<close> before it stores anything, and \<open>Read\<close> returns
  the zero entry with \<^verbatim>\<open>io.EOF\<close>. Followed by a space, the same digits give the
  instant.
\<close>

theorem C6_timestamp_at_end_of_line_is_EOF:
  "parseTimestamp when_zero (bytes_NewReader (runes ''1690000000''))
     = Some (Some EOF, when_zero, \<lparr>src = runes ''1690000000'', pos = 10, prevRune = None\<rparr>)
   \<and> readFirst (runes ''%t(%s)'') [runes ''1690000000''] = Some (Entry_zero, Some EOF)
   \<and> readFirst (runes ''%t(%s)'') [runes ''1690000000 '']
     = Some (Entry_zero\<lparr>Line := runes ''1690000000 '', When := time_Unix 1690000000 0\<rparr>, None)"
  by code_simp

subsection \<open>C7: the zone offset\<close>

text \<open>
  C7 reads: for a zone of the form sign, two digits of hours, an optional colon and two
  digits of minutes, the offset is the sign applied to hours times 3600 plus minutes times
  60, so that \<^verbatim>\<open>-05:30\<close> yields -19800; \<^verbatim>\<open>Z\<close> yields 0.

  The code on \<^verbatim>\<open>-05:30\<close>: the sign is multiplied into the hours and the minutes are
  added after it, which gives -18000 + 1800 = -16200. On \<^verbatim>\<open>+05:00\<close> the minutes
  \<^verbatim>\<open>00\<close> leave the variable \<open>i\<close> at the hours, and 5 minutes are added: 18300.
\<close>

theorem C7_negative_zone_minutes_added:
  "parseZone when_zero (bytes_NewReader (runes ''-05:30''))
     = Some (None, when_zero\<lparr>Zone := - 16200\<rparr>,
             \<lparr>src = runes ''-05:30'', pos = 6, prevRune = Some 5\<rparr>)
   \<and> parseZone when_zero (bytes_NewReader (runes ''+05:00''))
     = Some (None, when_zero\<lparr>Zone := 18300\<rparr>,
             \<lparr>src = runes ''+05:00'', pos = 6, prevRune = Some 5\<rparr>)
   \<and> parseZone when_zero (bytes_NewReader (runes ''Z''))
     = Some (None, when_zero, \<lparr>src = runes ''Z'', pos = 1, prevRune = Some 0\<rparr>)"
  by code_simp

subsection \<open>C8: the day of the year\<close>

text \<open>
  C8 reads: when the day of the year was populated with a positive value \<open>d\<close>, the
  instant that \<open>Time\<close> returns is on day \<open>d\<close> of its year.

  The code for year 2023 and day 32, which is February 1: the date built first is
  January 1, day 1 of the year, and 32 - 1 + 1 = 32 days are added to it, which gives
  February 2, day 33. The same through the scanners, on \<^verbatim>\<open>2023-032\<close>.
\<close>

theorem C8_day_of_year_one_day_late:
  "Time (when_zero\<lparr>Year := 2023, YearDay := 32\<rparr>)
     = \<lparr>unixSec = 1675296000, nanos = 0, loc = UTC\<rparr>
   \<and> Time_Date (Time (when_zero\<lparr>Year := 2023, YearDay := 32\<rparr>)) = (2023, 2, 2)
   \<and> Time_YearDay (Time (when_zero\<lparr>Year := 2023, YearDay := 32\<rparr>)) = 33
   \<and> readFirst (runes ''%t(%y-%j)'') [runes ''2023-032'']
     = Some (Entry_zero\<lparr>Line := runes ''2023-032'',
                          When := time_Date 2023 2 2 0 0 0 0 UTC\<rparr>, None)"
  by code_simp

subsection \<open>C9: the IPv4 scanner\<close>

text \<open>
  C9 reads: the \<^verbatim>\<open>%4\<close> scanner signals a mismatch whenever an octet exceeds 255 or
  the input does not present exactly four groups of digits separated by dots, an empty
  group included, and succeeds only on four octets in 0 to 255.

  The code on \<^verbatim>\<open>1..2.3\<close> followed by a space: the empty second group is taken as 0
  and the scanner succeeds with the address \<^verbatim>\<open>1.0.2.3\<close>. On three dots it succeeds
  with \<^verbatim>\<open>0.0.0.0\<close>. On \<^verbatim>\<open>1.2.3\<close> at the end of the line, three groups, the error is
  \<^verbatim>\<open>io.EOF\<close> and not the mismatch.
\<close>

theorem C9_ipv4_empty_group_accepted:
  "parseIPv4 host_zero (bytes_NewReader (runes ''1..2.3 ''))
     = Some (None, host_zero\<lparr>Addr := runes ''1.0.2.3''\<rparr>,
             \<lparr>src = runes ''1..2.3 '', pos = 6, prevRune = None\<rparr>)
   \<and> parseIPv4 host_zero (bytes_NewReader (runes ''... ''))
     = Some (None, host_zero\<lparr>Addr := runes ''0.0.0.0''\<rparr>,
             \<lparr>src = runes ''... '', pos = 3, prevRune = None\<rparr>)
   \<and> parseIPv4 host_zero (bytes_NewReader (runes ''1.2.3''))
     = Some (Some EOF, host_zero, \<lparr>src = runes ''1.2.3'', pos = 5, prevRune = None\<rparr>)"
  by code_simp

text \<open>What the scanner does as C9 says: four octets are accepted, with or without
  brackets, and an octet above 255 or a missing dot is a mismatch.\<close>

lemma parseIPv4_as_claimed:
  "parseIPv4 host_zero (bytes_NewReader (runes ''192.168.1.10:22''))
     = Some (None, host_zero\<lparr>Addr := runes ''192.168.1.10''\<rparr>,
             \<lparr>src = runes ''192.168.1.10:22'', pos = 12, prevRune = None\<rparr>)
   \<and> parseIPv4 host_zero (bytes_NewReader (runes ''[10.0.0.1]''))
     = Some (None, host_zero\<lparr>Addr := runes ''10.0.0.1''\<rparr>,
             \<lparr>src = runes ''[10.0.0.1]'', pos = 10, prevRune = Some 9\<rparr>)
   \<and> parseIPv4 host_zero (bytes_NewReader (runes ''10.0.256.1 ''))
     = Some (Some ErrPattern, host_zero,
             \<lparr>src = runes ''10.0.256.1 '', pos = 8, prevRune = None\<rparr>)
   \<and> parseIPv4 host_zero (bytes_NewReader (runes ''10.0.0 1 ''))
     = Some (Some ErrPattern, host_zero,
             \<lparr>src = runes ''10.0.0 1 '', pos = 6, prevRune = None\<rparr>)"
  by code_simp

subsection \<open>C10: the month stored for a month name\<close>

text \<open>With an \<open>accept\<close> that refuses rune 0, what the loop of \<open>parseString\<close> adds to
  its buffer is a prefix of the input at the cursor.\<close>

lemma parseStringLoop_prefix:
  "\<not> accept 0 \<Longrightarrow> parseStringLoop len k accept buf r = Some (b, r1) \<Longrightarrow>
   \<exists>n. b = buf @ take n (drop (pos r) (src r))"
proof (induction len k accept buf r rule: parseStringLoop.induct)
  case (1 len k accept buf r)
  show ?case
  proof (cases "len \<le> 0 \<or> k < len")
    case False
    with "1.prems" have "b = buf" by simp
    then show ?thesis by (intro exI [of _ 0]) simp
  next
    case enter: True
    show ?thesis
    proof (cases "pos r \<ge> length (src r)")
      case True
      with enter "1.prems" have "b = buf"
        by (simp add: ReadRune_def)
      then show ?thesis by (intro exI [of _ 0]) simp
    next
      case False
      define c where "c = src r ! pos r"
      define r' where "r' = r\<lparr>pos := pos r + 1, prevRune := Some (pos r)\<rparr>"
      have rd: "ReadRune r = (c, None, r')"
        using False by (simp add: ReadRune_def c_def r'_def)
      show ?thesis
      proof (cases "accept c")
        case False
        with enter rd "1.prems" have "b = buf" by simp
        then show ?thesis by (intro exI [of _ 0]) simp
      next
        case True
        with enter rd "1.prems"
        have rec: "parseStringLoop len (k + 1) accept (buf @ [c]) r' = Some (b, r1)"
          by simp
        from "1.IH" [OF enter rd [symmetric] refl _ _ "1.prems"(1) rec] True
        obtain n where n: "b = (buf @ [c]) @ take n (drop (pos r') (src r'))"
          by auto
        have "drop (pos r) (src r) = c # drop (pos r') (src r')"
          using False by (simp add: c_def r'_def Cons_nth_drop_Suc)
        with n have "b = buf @ take (Suc n) (drop (pos r) (src r))" by simp
        then show ?thesis by blast
      qed
    qed
  qed
qed

lemma parseString_three_letters:
  assumes "parseString r 3 isLetter = Some (str, None, r1)"
  shows "str = take 3 (drop (pos r) (src r))"
proof -
  have nz: "\<not> isLetter 0" by (simp add: isLetter_def rn_def)
  from assms obtain b r0 where
    loop: "parseStringLoop 3 0 isLetter [] r = Some (b, r0)" and
    len: "length b = 3" and str: "str = b"
    by (auto simp: parseString_def Let_def split: option.splits if_splits)
  from parseStringLoop_prefix [OF nz loop] obtain n where
    n: "b = take n (drop (pos r) (src r))" by auto
  with len have "min n (length (drop (pos r) (src r))) = 3" by simp
  then have "take n (drop (pos r) (src r)) = take 3 (drop (pos r) (src r))"
    by (cases "n \<le> 3") (auto simp: min_def split: if_splits)
  with n str show ?thesis by simp
qed

text \<open>The table \<open>months\<close> as \<^verbatim>\<open>init\<close> leaves it.\<close>

lemma months_sorted:
  "months = map runes [''apr'', ''aug'', ''dec'', ''feb'', ''jan'', ''jul'', ''jun'', ''mar'',
                        ''may'', ''nov'', ''oct'', ''sep'']"
  by code_simp

lemma length_months: "length months = 12"
  by (simp add: months_sorted)

text \<open>
  C10: the table that \<^verbatim>\<open>%b\<close> searches is the sorted one, apr, aug, dec, feb, jan,
  jul, jun, mar, may, nov, oct, sep. Whenever \<open>parseMonthStr\<close> accepts, the three runes
  at the cursor, in lower case, are the name at some index \<open>x\<close> of that table, and the
  accumulator is the one it was given with the month set to \<open>x + 1\<close>, not to the number
  of the month in the calendar: \<^verbatim>\<open>Jan\<close> stores 5 and \<^verbatim>\<open>sep\<close> stores 12.
\<close>

theorem C10_month_name_stores_sorted_index:
  "months = map runes [''apr'', ''aug'', ''dec'', ''feb'', ''jan'', ''jul'', ''jun'', ''mar'',
                        ''may'', ''nov'', ''oct'', ''sep'']
   \<and> (parseMonthStr w r = Some (None, w1, r1) \<longrightarrow>
        (\<exists>x < 12. ToLower (take 3 (drop (pos r) (src r))) = months ! x
                  \<and> w1 = w\<lparr>Mon := int x + 1\<rparr>))
   \<and> parseMonthStr when_zero (bytes_NewReader (runes ''Jan 5''))
       = Some (None, when_zero\<lparr>Mon := 5\<rparr>, \<lparr>src = runes ''Jan 5'', pos = 2, prevRune = None\<rparr>)
   \<and> parseMonthStr when_zero (bytes_NewReader (runes ''sep 5''))
       = Some (None, when_zero\<lparr>Mon := 12\<rparr>, \<lparr>src = runes ''sep 5'', pos = 2, prevRune = None\<rparr>)"
proof (intro conjI impI)
  show "months = map runes [''apr'', ''aug'', ''dec'', ''feb'', ''jan'', ''jul'', ''jun'',
                             ''mar'', ''may'', ''nov'', ''oct'', ''sep'']"
    by (rule months_sorted)
next
  assume ok: "parseMonthStr w r = Some (None, w1, r1)"
  then obtain month r0 where ps: "parseString r 3 isLetter = Some (month, None, r0)"
    by (auto simp: parseMonthStr_def split: option.splits)
  define x where "x = SearchStrings months (ToLower month)"
  from ok ps have x: "x < length months" "months ! x = ToLower month"
    and w1: "w1 = w\<lparr>Mon := int x + 1\<rparr>"
    by (auto simp: parseMonthStr_def Let_def x_def split: if_splits)
  from parseString_three_letters [OF ps] x w1
  show "\<exists>x < 12. ToLower (take 3 (drop (pos r) (src r))) = months ! x
                  \<and> w1 = w\<lparr>Mon := int x + 1\<rparr>"
    by (auto simp: length_months)
next
  show "parseMonthStr when_zero (bytes_NewReader (runes ''Jan 5''))
       = Some (None, when_zero\<lparr>Mon := 5\<rparr>, \<lparr>src = runes ''Jan 5'', pos = 2, prevRune = None\<rparr>)"
    by code_simp
next
  show "parseMonthStr when_zero (bytes_NewReader (runes ''sep 5''))
       = Some (None, when_zero\<lparr>Mon := 12\<rparr>, \<lparr>src = runes ''sep 5'', pos = 2, prevRune = None\<rparr>)"
    by code_simp
qed

text \<open>The theorem at \<^verbatim>\<open>Jan 5\<close>: the scanner accepts, and the index is 4.\<close>

theorem C10_witness:
  "parseMonthStr when_zero (bytes_NewReader (runes ''Jan 5''))
     = Some (None, when_zero\<lparr>Mon := 5\<rparr>, \<lparr>src = runes ''Jan 5'', pos = 2, prevRune = None\<rparr>)
   \<and> (\<exists>x < 12. ToLower (take 3 (drop (pos (bytes_NewReader (runes ''Jan 5'')))
                                      (src (bytes_NewReader (runes ''Jan 5'')))))
                 = months ! x
               \<and> when_zero\<lparr>Mon := 5\<rparr> = when_zero\<lparr>Mon := int x + 1\<rparr>)"
proof -
  have h: "parseMonthStr when_zero (bytes_NewReader (runes ''Jan 5''))
           = Some (None, when_zero\<lparr>Mon := 5\<rparr>,
                   \<lparr>src = runes ''Jan 5'', pos = 2, prevRune = None\<rparr>)"
    by code_simp
  from C10_month_name_stores_sorted_index
         [of when_zero "bytes_NewReader (runes ''Jan 5'')" "when_zero\<lparr>Mon := 5\<rparr>"
             "\<lparr>src = runes ''Jan 5'', pos = 2, prevRune = None\<rparr>"] h
  show ?thesis by blast
qed

end
